theory Spec2Isabelle
  imports Main
begin

section \<open>Data model of \<^verbatim>\<open>fundraising/forms.py\<close>\<close>

text \<open>
  \<^verbatim>\<open>INTERVAL_CHOICES\<close> (lines 8-13): the pairs of stored value and label offered by the
  \<^verbatim>\<open>interval\<close> field.
\<close>

definition INTERVAL_CHOICES :: "(string \<times> string) list" where
  "INTERVAL_CHOICES =
     [(''monthly'', ''Monthly donation''),
      (''quarterly'', ''Quarterly donation''),
      (''yearly'', ''Yearly donation''),
      (''onetime'', ''One-time donation'')]"

text \<open>
  The exceptions that can travel through \<^verbatim>\<open>make_donation\<close>. A constructor stands for the
  first \<^verbatim>\<open>except\<close> clause of lines 209-235 that the exception's class matches; the four
  named Stripe classes are unrelated subclasses of \<^verbatim>\<open>stripe.StripeError\<close>. The string of
  the Stripe exceptions is the text that \<^verbatim>\<open>str()\<close> gives for them, the string of
  \<^verbatim>\<open>KeyError\<close> is the missing key, and the string of \<^verbatim>\<open>DonationError\<close> is its message.
\<close>

datatype py_exception =
    CardError string
  | InvalidRequestError string
  | APIConnectionError string
  | AuthenticationError string
  | StripeError string
  | OtherException string
  | KeyError string
  | DonationError string

datatype 'a result = Returned 'a | Raised py_exception

text \<open>A \<^verbatim>\<open>Campaign\<close> row, named by its primary key.\<close>

type_synonym campaign = nat

text \<open>
  \<^verbatim>\<open>self.cleaned_data\<close>, a dictionary: \<open>None\<close> in \<open>cd_amount\<close>, \<open>cd_campaign\<close>,
  \<open>cd_stripe_token\<close> and \<open>cd_interval\<close> is a key that is not in the dictionary (reading
  it with \<^verbatim>\<open>[...]\<close> raises \<^verbatim>\<open>KeyError\<close>). The value stored under \<^verbatim>\<open>'campaign'\<close> is a
  \<^verbatim>\<open>Campaign\<close> or Python's \<^verbatim>\<open>None\<close>, hence the second \<open>option\<close>. \<open>cd_receipt_email\<close>
  is what \<^verbatim>\<open>.get('receipt_email')\<close> returns: \<open>None\<close> when the key is missing, the
  stored string otherwise.
\<close>

record cleaned_data =
  cd_receipt_email :: "string option"
  cd_amount :: "int option"
  cd_campaign :: "campaign option option"
  cd_stripe_token :: "string option"
  cd_interval :: "string option"

text \<open>
  The keyword arguments handed to \<^verbatim>\<open>Donation.objects.create\<close> (lines 239-247), and the
  row that results. \<open>campaign = None\<close> is the case in which the key \<^verbatim>\<open>'campaign'\<close> is not
  put into \<^verbatim>\<open>donation_params\<close>.
\<close>

record donation =
  amount :: int
  stripe_customer_id :: string
  stripe_charge_id :: string
  stripe_subscription_id :: string
  receipt_email :: "string option"
  campaign :: "campaign option"

text \<open>
  The calls that reach the payment processor, with their arguments in the order
  \<^verbatim>\<open>Customer.create(card)\<close>, \<^verbatim>\<open>Charge.create(amount, currency, customer, receipt_email)\<close>
  and \<^verbatim>\<open>customer.subscriptions.create(plan, quantity)\<close>, the latter preceded by the id of
  the customer it is called on.
\<close>

datatype stripe_call =
    Customer_create string
  | Charge_create int string string "string option"
  | Subscriptions_create string string int

text \<open>
  The collaborators of \<^verbatim>\<open>make_donation\<close>, which are not part of the file: what the
  processor answers to each call (an exception, or the \<^verbatim>\<open>id\<close> of the object it made), and
  whether writing the \<^verbatim>\<open>Donation\<close> row raises.
\<close>

record collaborators =
  customer_create :: "string \<Rightarrow> py_exception + string"
  charge_create :: "int \<Rightarrow> string \<Rightarrow> string \<Rightarrow> string option \<Rightarrow> py_exception + string"
  subscriptions_create :: "string \<Rightarrow> string \<Rightarrow> int \<Rightarrow> py_exception + string"
  objects_create_error :: "donation \<Rightarrow> py_exception option"

text \<open>
  The world outside the function: the calls the processor has received so far and the
  calls of \<^verbatim>\<open>Donation.objects.create\<close> so far, oldest first (a call is recorded whether
  or not it succeeds), and the rows of the \<^verbatim>\<open>Donation\<close> table.
\<close>

record world =
  stripe_calls :: "stripe_call list"
  objects_create_calls :: "donation list"
  donations :: "donation list"

section \<open>\<^verbatim>\<open>PaymentForm.make_donation\<close>\<close>

text \<open>\<^verbatim>\<open>receipt_email or None\<close> (line 198): Python's \<^verbatim>\<open>None\<close> and \<^verbatim>\<open>''\<close> are both false.\<close>

definition or_None :: "string option \<Rightarrow> string option" where
  "or_None v = (case v of None \<Rightarrow> None | Some t \<Rightarrow> if t = [] then None else Some t)"

definition called :: "stripe_call \<Rightarrow> world \<Rightarrow> world" where
  "called c s = s\<lparr>stripe_calls := stripe_calls s @ [c]\<rparr>"

text \<open>
  The body of the \<^verbatim>\<open>try\<close> statement (lines 186-207). It yields the exception that
  leaves it, or \<^verbatim>\<open>customer.id\<close>, \<^verbatim>\<open>charge_id\<close> and \<^verbatim>\<open>subscription_id\<close>. \<^verbatim>\<open>amount\<close> is a
  Python \<^verbatim>\<open>int\<close>, so \<^verbatim>\<open>int(amount * 100)\<close> and \<^verbatim>\<open>int(amount)\<close> are exact.
\<close>

definition try_body ::
  "collaborators \<Rightarrow> string \<Rightarrow> string \<Rightarrow> int \<Rightarrow> string option \<Rightarrow> world
     \<Rightarrow> (py_exception + string \<times> string \<times> string) \<times> world" where
  "try_body env stripe_token interval amnt email s =
     (let s1 = called (Customer_create stripe_token) s in
      case customer_create env stripe_token of
        Inl e \<Rightarrow> (Inl e, s1)
      | Inr customer_id \<Rightarrow>
          if interval = ''onetime'' then
            (let s2 = called (Charge_create (amnt * 100) ''usd'' customer_id (or_None email)) s1 in
             case charge_create env (amnt * 100) ''usd'' customer_id (or_None email) of
               Inl e \<Rightarrow> (Inl e, s2)
             | Inr charge_id \<Rightarrow> (Inr (customer_id, charge_id, []), s2))
          else
            (let s2 = called (Subscriptions_create customer_id interval amnt) s1 in
             case subscriptions_create env customer_id interval amnt of
               Inl e \<Rightarrow> (Inl e, s2)
             | Inr subscription_id \<Rightarrow> (Inr (customer_id, [], subscription_id), s2)))"

text \<open>The messages of lines 210-212, 216-219 and 223-226.\<close>

definition card_error_message :: "string \<Rightarrow> string" where
  "card_error_message reply =
     ''We'' @ [CHR 0x27] @ ''re sorry but we had problems charging your card. '' @
     ''Here is what Stripe replied: '' @ [CHR 0x22] @ reply @ [CHR 0x22]"

definition invalid_request_message :: string where
  "invalid_request_message =
     ''We'' @ [CHR 0x27] @ ''re sorry but something went wrong while processing '' @
     ''your card details. No charge was done. Please try '' @
     ''again or get in touch with us.''"

definition connection_error_message :: string where
  "connection_error_message =
     ''We'' @ [CHR 0x27] @ ''re sorry but we have technical difficulties '' @
     ''reaching our payment processor Stripe. No charge '' @
     ''was done. Please try again later.''"

text \<open>
  The \<^verbatim>\<open>except\<close> clauses (lines 209-235), in the order of the source: the exception that
  leaves the \<^verbatim>\<open>try\<close> statement when \<open>e\<close> was raised in its body.
\<close>

definition except_clauses :: "py_exception \<Rightarrow> py_exception" where
  "except_clauses e =
     (case e of
        CardError card_error \<Rightarrow> DonationError (card_error_message card_error)
      | InvalidRequestError _ \<Rightarrow> DonationError invalid_request_message
      | APIConnectionError _ \<Rightarrow> DonationError connection_error_message
      | AuthenticationError _ \<Rightarrow> e
      | _ \<Rightarrow> e)"

text \<open>
  Modelled from the spec: \<^verbatim>\<open>Donation.objects.create\<close> (the model class of
  \<^verbatim>\<open>fundraising/models.py\<close> is not in the sources). It writes one row holding the fields
  it is given and returns it, or raises and writes nothing.
\<close>

definition objects_create :: "collaborators \<Rightarrow> donation \<Rightarrow> world \<Rightarrow> donation result \<times> world" where
  "objects_create env d s =
     (let s1 = s\<lparr>objects_create_calls := objects_create_calls s @ [d]\<rparr> in
      case objects_create_error env d of
        Some e \<Rightarrow> (Raised e, s1)
      | None \<Rightarrow> (Returned d, s1\<lparr>donations := donations s1 @ [d]\<rparr>))"

text \<open>
  \<^verbatim>\<open>make_donation\<close> (lines 178-249). The four dictionary reads of lines 180-183 come
  first, then the \<^verbatim>\<open>try\<close> statement, whose \<^verbatim>\<open>else\<close> clause (lines 237-249) runs outside the
  reach of the \<^verbatim>\<open>except\<close> clauses.
\<close>

definition make_donation :: "collaborators \<Rightarrow> cleaned_data \<Rightarrow> world \<Rightarrow> donation result \<times> world" where
  "make_donation env cd s =
     (let email = cd_receipt_email cd in
      case cd_amount cd of
        None \<Rightarrow> (Raised (KeyError ''amount''), s)
      | Some amnt \<Rightarrow>
      (case cd_campaign cd of
        None \<Rightarrow> (Raised (KeyError ''campaign''), s)
      | Some campaign_value \<Rightarrow>
      (case cd_stripe_token cd of
        None \<Rightarrow> (Raised (KeyError ''stripe_token''), s)
      | Some stripe_token \<Rightarrow>
      (case cd_interval cd of
        None \<Rightarrow> (Raised (KeyError ''interval''), s)
      | Some interval \<Rightarrow>
      (case try_body env stripe_token interval amnt email s of
        (Inl e, s') \<Rightarrow> (Raised (except_clauses e), s')
      | (Inr (customer_id, charge_id, subscription_id), s') \<Rightarrow>
          objects_create env
            \<lparr>amount = amnt,
             stripe_customer_id = customer_id,
             stripe_charge_id = charge_id,
             stripe_subscription_id = subscription_id,
             receipt_email = email,
             campaign = campaign_value\<rparr> s')))))"

text \<open>
  The processor hands out identifiers that are not empty: the assumption under which an
  identifier tells a charge from a subscription.
\<close>

definition processor_ids_nonempty :: "collaborators \<Rightarrow> bool" where
  "processor_ids_nonempty env \<longleftrightarrow>
     (\<forall>a c k r. charge_create env a c k r \<noteq> Inr []) \<and>
     (\<forall>k p q. subscriptions_create env k p q \<noteq> Inr [])"

text \<open>A processor that accepts every call, and a form filled in for a single donation.\<close>

definition accepting :: collaborators where
  "accepting =
     \<lparr>customer_create = (\<lambda>_. Inr ''cus_1''),
      charge_create = (\<lambda>_ _ _ _. Inr ''ch_1''),
      subscriptions_create = (\<lambda>_ _ _. Inr ''sub_1''),
      objects_create_error = (\<lambda>_. None)\<rparr>"

definition onetime_25 :: cleaned_data where
  "onetime_25 =
     \<lparr>cd_receipt_email = Some [],
      cd_amount = Some 25,
      cd_campaign = Some None,
      cd_stripe_token = Some ''tok_valid'',
      cd_interval = Some ''onetime''\<rparr>"

definition monthly_10 :: cleaned_data where
  "monthly_10 =
     \<lparr>cd_receipt_email = Some ''donor@example.com'',
      cd_amount = Some 10,
      cd_campaign = Some (Some 3),
      cd_stripe_token = Some ''tok_valid'',
      cd_interval = Some ''monthly''\<rparr>"

definition nothing_yet :: world where
  "nothing_yet = \<lparr>stripe_calls = [], objects_create_calls = [], donations = []\<rparr>"

section \<open>Validation of \<^verbatim>\<open>amount\<close> and \<^verbatim>\<open>interval\<close>\<close>

text \<open>The error codes of a field that does not validate.\<close>

datatype validation_error = Required | Invalid | Min_value | Invalid_choice

text \<open>
  Modelled from the spec: the cleaning of the field
  \<^verbatim>\<open>amount = forms.IntegerField(required=True, min_value=1, ...)\<close> (lines 138-149). The
  declaration is in the sources, the form machinery that runs it is not: the submitted
  text must be there, must parse as an integer, and the integer must be at least
  \<^verbatim>\<open>min_value\<close>. \<open>to_int\<close> is the parsing of a text as an integer, \<open>None\<close> where the
  text is not one.
\<close>

definition clean_amount :: "(string \<Rightarrow> int option) \<Rightarrow> string \<Rightarrow> validation_error + int" where
  "clean_amount to_int v =
     (if v = [] then Inl Required
      else case to_int v of
        None \<Rightarrow> Inl Invalid
      | Some n \<Rightarrow> if n < 1 then Inl Min_value else Inr n)"

text \<open>
  Modelled from the spec: the cleaning of the field
  \<^verbatim>\<open>interval = forms.ChoiceField(required=True, choices=INTERVAL_CHOICES)\<close> (lines
  150-153), likewise: the submitted value must be there and must be one of the values of
  \<^verbatim>\<open>INTERVAL_CHOICES\<close>.
\<close>

definition clean_interval :: "string \<Rightarrow> validation_error + string" where
  "clean_interval v =
     (if v = [] then Inl Required
      else if v \<in> set (map fst INTERVAL_CHOICES) then Inr v
      else Inl Invalid_choice)"

text \<open>
  Modelled from the spec: the cleaning of the form, for the two fields above. \<open>others\<close>
  holds the entries of \<^verbatim>\<open>cleaned_data\<close> for the three other fields. A field that validates
  puts its value into \<^verbatim>\<open>cleaned_data\<close>; a field that does not leaves no entry there and
  adds its error, under its name, to the errors of the form.
\<close>

definition full_clean ::
  "(string \<Rightarrow> int option) \<Rightarrow> string \<Rightarrow> string \<Rightarrow> cleaned_data
     \<Rightarrow> cleaned_data \<times> (string \<times> validation_error) list" where
  "full_clean to_int raw_amount raw_interval others =
     (others\<lparr>cd_amount := (case clean_amount to_int raw_amount of Inl _ \<Rightarrow> None | Inr n \<Rightarrow> Some n),
             cd_interval := (case clean_interval raw_interval of Inl _ \<Rightarrow> None | Inr v \<Rightarrow> Some v)\<rparr>,
      (case clean_amount to_int raw_amount of Inl e \<Rightarrow> [(''amount'', e)] | Inr _ \<Rightarrow> []) @
      (case clean_interval raw_interval of Inl e \<Rightarrow> [(''interval'', e)] | Inr _ \<Rightarrow> []))"

text \<open>\<^verbatim>\<open>is_valid\<close>: the form has no errors.\<close>

definition is_valid :: "(string \<times> validation_error) list \<Rightarrow> bool" where
  "is_valid errors \<longleftrightarrow> errors = []"

section \<open>Processors and forms to run the function on\<close>

text \<open>A processor that declines the card when it is charged.\<close>

definition declining :: collaborators where
  "declining = accepting\<lparr>charge_create := (\<lambda>_ _ _ _. Inl (CardError ''Your card was declined.''))\<rparr>"

text \<open>A processor that cannot be reached.\<close>

definition unreachable :: collaborators where
  "unreachable =
     accepting\<lparr>customer_create := (\<lambda>_. Inl (APIConnectionError ''Connection refused''))\<rparr>"

text \<open>A processor that does not accept the API key.\<close>

definition unauthenticated :: collaborators where
  "unauthenticated =
     accepting\<lparr>customer_create := (\<lambda>_. Inl (AuthenticationError ''Invalid API Key provided''))\<rparr>"

text \<open>A processor that accepts every call, with a database that cannot be written.\<close>

definition database_down :: collaborators where
  "database_down =
     accepting\<lparr>objects_create_error := (\<lambda>_. Some (OtherException ''database is down''))\<rparr>"

text \<open>A processor that finds the card wrong when the customer is created.\<close>

definition refusing_card :: collaborators where
  "refusing_card =
     accepting\<lparr>customer_create := (\<lambda>_. Inl (CardError ''Your card number is incorrect.''))\<rparr>"

text \<open>A processor that creates the customer and cannot be reached for the subscription.\<close>

definition dropping :: collaborators where
  "dropping =
     accepting\<lparr>subscriptions_create := (\<lambda>_ _ _. Inl (APIConnectionError ''Connection reset''))\<rparr>"

text \<open>
  A processor that creates the customer and answers the subscription with an error of
  none of the four named classes.
\<close>

definition throttling :: collaborators where
  "throttling =
     accepting\<lparr>subscriptions_create := (\<lambda>_ _ _. Inl (StripeError ''Too many requests''))\<rparr>"

text \<open>The form for a single donation, with a receipt email that is no address.\<close>

definition onetime_not_an_email :: cleaned_data where
  "onetime_not_an_email = onetime_25\<lparr>cd_receipt_email := Some ''not an email''\<rparr>"

text \<open>A parser that knows two texts.\<close>

definition to_int_0_25 :: "string \<Rightarrow> int option" where
  "to_int_0_25 v = (if v = ''0'' then Some 0 else if v = ''25'' then Some 25 else None)"

text \<open>\<^verbatim>\<open>isinstance(e, DonationError)\<close>, for what a call hands back.\<close>

fun is_DonationError :: "donation result \<Rightarrow> bool" where
  "is_DonationError (Raised (DonationError _)) = True"
| "is_DonationError _ = False"

text \<open>The rows that the two forms above lead to with the accepting processor.\<close>

definition donation_25 :: donation where
  "donation_25 =
     \<lparr>amount = 25, stripe_customer_id = ''cus_1'', stripe_charge_id = ''ch_1'',
      stripe_subscription_id = [], receipt_email = Some [], campaign = None\<rparr>"

definition donation_10 :: donation where
  "donation_10 =
     \<lparr>amount = 10, stripe_customer_id = ''cus_1'', stripe_charge_id = [],
      stripe_subscription_id = ''sub_1'', receipt_email = Some ''donor@example.com'',
      campaign = Some 3\<rparr>"

section \<open>Properties\<close>

lemmas make_donation_defs =
  make_donation_def try_body_def objects_create_def called_def Let_def

lemmas run_defs =
  make_donation_defs or_None_def except_clauses_def accepting_def declining_def
  unreachable_def unauthenticated_def database_down_def onetime_25_def monthly_10_def
  nothing_yet_def donation_25_def donation_10_def refusing_card_def dropping_def
  throttling_def onetime_not_an_email_def

subsection \<open>What the parts of the function do\<close>

text \<open>
  An exception leaves the body of the \<^verbatim>\<open>try\<close> statement exactly when the processor
  raises it: on creating the customer, or on the charge or subscription that follows.
\<close>

lemma try_body_raises_iff:
  "fst (try_body env tok interval amnt email s) = Inl e \<longleftrightarrow>
     customer_create env tok = Inl e \<or>
     (\<exists>cid. customer_create env tok = Inr cid \<and>
        (if interval = ''onetime''
         then charge_create env (amnt * 100) ''usd'' cid (or_None email)
         else subscriptions_create env cid interval amnt) = Inl e)"
  unfolding try_body_def Let_def
  by (auto split: sum.splits)

lemma card_error_message_quotes:
  "card_error_message reply =
     (''We'' @ [CHR 0x27] @ ''re sorry but we had problems charging your card. '' @
      ''Here is what Stripe replied: '' @ [CHR 0x22]) @ reply @ [CHR 0x22]"
  unfolding card_error_message_def by (simp only: append_assoc)

lemma connection_error_message_ends:
  "connection_error_message =
     (''We'' @ [CHR 0x27] @ ''re sorry but we have technical difficulties '' @
      ''reaching our payment processor Stripe. '') @
     ''No charge was done. Please try again later.''"
  unfolding connection_error_message_def by simp

lemma make_donation_missing_amount:
  "cd_amount cd = None \<Longrightarrow> make_donation env cd s = (Raised (KeyError ''amount''), s)"
  by (simp add: make_donation_def)

lemma make_donation_missing_interval:
  "cd_interval cd = None \<Longrightarrow> \<exists>k. make_donation env cd s = (Raised (KeyError k), s)"
  by (cases "cd_amount cd"; cases "cd_campaign cd"; cases "cd_stripe_token cd")
     (simp_all add: make_donation_def)

subsection \<open>The donation that results\<close>

text \<open>
  C1. When \<^verbatim>\<open>make_donation\<close> returns a donation and the processor's identifiers are not
  empty, exactly one of the donation's charge id and subscription id is non-empty, and
  the interval decides which: for \<^verbatim>\<open>'onetime'\<close> the charge id is set and the subscription
  id is the empty string, for every other interval the subscription id is set and the
  charge id is the empty string.
\<close>

theorem charge_id_xor_subscription_id:
  assumes "make_donation env cd s = (Returned d, s')"
    and "processor_ids_nonempty env"
  shows "(if cd_interval cd = Some ''onetime''
          then stripe_charge_id d \<noteq> [] \<and> stripe_subscription_id d = []
          else stripe_subscription_id d \<noteq> [] \<and> stripe_charge_id d = [])
         \<and> (stripe_charge_id d = []) \<noteq> (stripe_subscription_id d = [])"
  using assms
  unfolding make_donation_defs processor_ids_nonempty_def
  by (auto split: option.splits sum.splits if_splits prod.splits)

theorem charge_id_xor_subscription_id_witness:
  "make_donation accepting onetime_25 nothing_yet =
     (Returned donation_25,
      \<lparr>stripe_calls = [Customer_create ''tok_valid'', Charge_create 2500 ''usd'' ''cus_1'' None],
       objects_create_calls = [donation_25], donations = [donation_25]\<rparr>)
   \<and> processor_ids_nonempty accepting
   \<and> cd_interval onetime_25 = Some ''onetime''
   \<and> stripe_charge_id donation_25 = ''ch_1''
   \<and> stripe_subscription_id donation_25 = []"
proof -
  have run: "make_donation accepting onetime_25 nothing_yet =
     (Returned donation_25,
      \<lparr>stripe_calls = [Customer_create ''tok_valid'', Charge_create 2500 ''usd'' ''cus_1'' None],
       objects_create_calls = [donation_25], donations = [donation_25]\<rparr>)"
    by (simp add: run_defs)
  have ids: "processor_ids_nonempty accepting"
    by (simp add: processor_ids_nonempty_def accepting_def)
  from charge_id_xor_subscription_id [OF run ids] run ids show ?thesis
    by (simp add: onetime_25_def donation_25_def)
qed

text \<open>
  C2. On a form that has all its entries, a run asks the processor to create the customer
  and, once the customer is created, adds exactly one more call: for the interval
  \<^verbatim>\<open>'onetime'\<close> the charge of \<open>amnt * 100\<close> in the currency \<^verbatim>\<open>'usd'\<close>, for every other
  interval the subscription with the interval as plan and \<open>amnt\<close> itself as quantity. The
  multiplication by 100 is in the charge call and nowhere else: the row handed to
  \<^verbatim>\<open>Donation.objects.create\<close>, like the donation returned, holds \<open>amnt\<close>.
\<close>

theorem amounts_passed_to_processor:
  assumes "cd_amount cd = Some amnt" and "cd_campaign cd = Some cv"
    and "cd_stripe_token cd = Some tok" and "cd_interval cd = Some interval"
    and "make_donation env cd s = (r, s')"
  shows "stripe_calls s' = stripe_calls s @ Customer_create tok #
           (case customer_create env tok of
              Inl _ \<Rightarrow> []
            | Inr cid \<Rightarrow>
                [if interval = ''onetime''
                 then Charge_create (amnt * 100) ''usd'' cid (or_None (cd_receipt_email cd))
                 else Subscriptions_create cid interval amnt])
     \<and> (objects_create_calls s' = objects_create_calls s
        \<or> (\<exists>d. objects_create_calls s' = objects_create_calls s @ [d] \<and> amount d = amnt))
     \<and> (\<forall>d. r = Returned d \<longrightarrow>
           amount d = amnt \<and> objects_create_calls s' = objects_create_calls s @ [d])"
  using assms
  unfolding make_donation_defs
  by (auto split: option.splits sum.splits if_splits prod.splits)

theorem amounts_passed_to_processor_witness:
  "make_donation accepting monthly_10 nothing_yet =
     (Returned donation_10,
      \<lparr>stripe_calls = [Customer_create ''tok_valid'', Subscriptions_create ''cus_1'' ''monthly'' 10],
       objects_create_calls = [donation_10], donations = [donation_10]\<rparr>)
   \<and> amount donation_10 = 10
   \<and> make_donation accepting onetime_25 nothing_yet =
     (Returned donation_25,
      \<lparr>stripe_calls = [Customer_create ''tok_valid'', Charge_create 2500 ''usd'' ''cus_1'' None],
       objects_create_calls = [donation_25], donations = [donation_25]\<rparr>)
   \<and> amount donation_25 = 25"
proof -
  have a: "cd_amount monthly_10 = Some 10" and c: "cd_campaign monthly_10 = Some (Some 3)"
    and t: "cd_stripe_token monthly_10 = Some ''tok_valid''"
    and i: "cd_interval monthly_10 = Some ''monthly''"
    by (simp_all add: monthly_10_def)
  have a': "cd_amount onetime_25 = Some 25" and c': "cd_campaign onetime_25 = Some None"
    and t': "cd_stripe_token onetime_25 = Some ''tok_valid''"
    and i': "cd_interval onetime_25 = Some ''onetime''"
    by (simp_all add: onetime_25_def)
  have monthly: "make_donation accepting monthly_10 nothing_yet =
     (Returned donation_10,
      \<lparr>stripe_calls = [Customer_create ''tok_valid'', Subscriptions_create ''cus_1'' ''monthly'' 10],
       objects_create_calls = [donation_10], donations = [donation_10]\<rparr>)"
    by (simp add: run_defs)
  have onetime: "make_donation accepting onetime_25 nothing_yet =
     (Returned donation_25,
      \<lparr>stripe_calls = [Customer_create ''tok_valid'', Charge_create 2500 ''usd'' ''cus_1'' None],
       objects_create_calls = [donation_25], donations = [donation_25]\<rparr>)"
    by (simp add: run_defs)
  from amounts_passed_to_processor [OF a c t i monthly]
    amounts_passed_to_processor [OF a' c' t' i' onetime] monthly onetime
  show ?thesis
    by (simp add: donation_10_def donation_25_def)
qed

subsection \<open>Failures of the processor\<close>

text \<open>
  C4. When the processor answers with a card error, on creating the customer or on the
  charge or subscription that follows, \<^verbatim>\<open>make_donation\<close> raises \<^verbatim>\<open>DonationError\<close> with
  the card message of lines 210-212, which contains the processor's reply as it is;
  \<^verbatim>\<open>Donation.objects.create\<close> is not called and no \<^verbatim>\<open>Donation\<close> row is written.
\<close>

theorem card_decline:
  assumes "cd_amount cd = Some amnt" and "cd_campaign cd = Some cv"
    and "cd_stripe_token cd = Some tok" and "cd_interval cd = Some interval"
    and "customer_create env tok = Inl (CardError reply) \<or>
         (\<exists>cid. customer_create env tok = Inr cid \<and>
            (if interval = ''onetime''
             then charge_create env (amnt * 100) ''usd'' cid (or_None (cd_receipt_email cd))
             else subscriptions_create env cid interval amnt) = Inl (CardError reply))"
    and "make_donation env cd s = (r, s')"
  shows "r = Raised (DonationError (card_error_message reply))
     \<and> (\<exists>before after. card_error_message reply = before @ reply @ after)
     \<and> donations s' = donations s
     \<and> objects_create_calls s' = objects_create_calls s"
proof -
  have "\<exists>before after. card_error_message reply = before @ reply @ after"
    using card_error_message_quotes by blast
  moreover have "r = Raised (DonationError (card_error_message reply))
     \<and> donations s' = donations s \<and> objects_create_calls s' = objects_create_calls s"
    using assms
    unfolding make_donation_defs except_clauses_def
    by (auto split: option.splits sum.splits if_splits prod.splits)
  ultimately show ?thesis by blast
qed

theorem card_decline_witness:
  "customer_create declining ''tok_valid'' = Inr ''cus_1''
   \<and> charge_create declining 2500 ''usd'' ''cus_1'' None = Inl (CardError ''Your card was declined.'')
   \<and> make_donation declining onetime_25 nothing_yet =
     (Raised (DonationError (card_error_message ''Your card was declined.'')),
      \<lparr>stripe_calls = [Customer_create ''tok_valid'', Charge_create 2500 ''usd'' ''cus_1'' None],
       objects_create_calls = [], donations = []\<rparr>)
   \<and> customer_create refusing_card ''tok_valid'' = Inl (CardError ''Your card number is incorrect.'')
   \<and> make_donation refusing_card monthly_10 nothing_yet =
     (Raised (DonationError (card_error_message ''Your card number is incorrect.'')),
      \<lparr>stripe_calls = [Customer_create ''tok_valid''],
       objects_create_calls = [], donations = []\<rparr>)"
proof -
  have a: "cd_amount onetime_25 = Some 25" and c: "cd_campaign onetime_25 = Some None"
    and t: "cd_stripe_token onetime_25 = Some ''tok_valid''"
    and i: "cd_interval onetime_25 = Some ''onetime''"
    by (simp_all add: onetime_25_def)
  have a': "cd_amount monthly_10 = Some 10" and c': "cd_campaign monthly_10 = Some (Some 3)"
    and t': "cd_stripe_token monthly_10 = Some ''tok_valid''"
    and i': "cd_interval monthly_10 = Some ''monthly''"
    by (simp_all add: monthly_10_def)
  have answers: "customer_create declining ''tok_valid'' = Inr ''cus_1''"
    "charge_create declining 2500 ''usd'' ''cus_1'' None = Inl (CardError ''Your card was declined.'')"
    "customer_create refusing_card ''tok_valid'' = Inl (CardError ''Your card number is incorrect.'')"
    by (simp_all add: declining_def refusing_card_def accepting_def)
  have declined: "customer_create declining ''tok_valid'' = Inl (CardError ''Your card was declined.'') \<or>
         (\<exists>cid. customer_create declining ''tok_valid'' = Inr cid \<and>
            (if ''onetime'' = ''onetime''
             then charge_create declining (25 * 100) ''usd'' cid (or_None (cd_receipt_email onetime_25))
             else subscriptions_create declining cid ''onetime'' 25) = Inl (CardError ''Your card was declined.''))"
    by (simp add: declining_def accepting_def onetime_25_def or_None_def)
  have refused: "customer_create refusing_card ''tok_valid'' = Inl (CardError ''Your card number is incorrect.'') \<or>
         (\<exists>cid. customer_create refusing_card ''tok_valid'' = Inr cid \<and>
            (if ''monthly'' = ''onetime''
             then charge_create refusing_card (10 * 100) ''usd'' cid (or_None (cd_receipt_email monthly_10))
             else subscriptions_create refusing_card cid ''monthly'' 10) = Inl (CardError ''Your card number is incorrect.''))"
    by (simp add: refusing_card_def accepting_def)
  have run: "make_donation declining onetime_25 nothing_yet =
     (fst (make_donation declining onetime_25 nothing_yet),
      \<lparr>stripe_calls = [Customer_create ''tok_valid'', Charge_create 2500 ''usd'' ''cus_1'' None],
       objects_create_calls = [], donations = []\<rparr>)"
    by (simp add: run_defs)
  have run': "make_donation refusing_card monthly_10 nothing_yet =
     (fst (make_donation refusing_card monthly_10 nothing_yet),
      \<lparr>stripe_calls = [Customer_create ''tok_valid''],
       objects_create_calls = [], donations = []\<rparr>)"
    by (simp add: run_defs)
  from card_decline [OF a c t i declined run] card_decline [OF a' c' t' i' refused run']
    answers run run'
  show ?thesis
    by simp
qed

text \<open>
  C5. When the communication with the processor fails, on creating the customer or on
  the charge or subscription that follows, \<^verbatim>\<open>make_donation\<close> raises \<^verbatim>\<open>DonationError\<close>
  with the message of lines 223-226, which ends in ``No charge was done. Please try again
  later.''; \<^verbatim>\<open>Donation.objects.create\<close> is not called and no \<^verbatim>\<open>Donation\<close> row is written.
\<close>

theorem processor_unreachable:
  assumes "cd_amount cd = Some amnt" and "cd_campaign cd = Some cv"
    and "cd_stripe_token cd = Some tok" and "cd_interval cd = Some interval"
    and "customer_create env tok = Inl (APIConnectionError reason) \<or>
         (\<exists>cid. customer_create env tok = Inr cid \<and>
            (if interval = ''onetime''
             then charge_create env (amnt * 100) ''usd'' cid (or_None (cd_receipt_email cd))
             else subscriptions_create env cid interval amnt) = Inl (APIConnectionError reason))"
    and "make_donation env cd s = (r, s')"
  shows "r = Raised (DonationError connection_error_message)
     \<and> (\<exists>before. connection_error_message =
            before @ ''No charge was done. Please try again later.'')
     \<and> donations s' = donations s
     \<and> objects_create_calls s' = objects_create_calls s"
proof -
  have "\<exists>before. connection_error_message =
          before @ ''No charge was done. Please try again later.''"
    using connection_error_message_ends by blast
  moreover have "r = Raised (DonationError connection_error_message)
     \<and> donations s' = donations s \<and> objects_create_calls s' = objects_create_calls s"
    using assms
    unfolding make_donation_defs except_clauses_def
    by (auto split: option.splits sum.splits if_splits prod.splits)
  ultimately show ?thesis by blast
qed

theorem processor_unreachable_witness:
  "customer_create unreachable ''tok_valid'' = Inl (APIConnectionError ''Connection refused'')
   \<and> make_donation unreachable onetime_25 nothing_yet =
     (Raised (DonationError connection_error_message),
      \<lparr>stripe_calls = [Customer_create ''tok_valid''],
       objects_create_calls = [], donations = []\<rparr>)
   \<and> customer_create dropping ''tok_valid'' = Inr ''cus_1''
   \<and> subscriptions_create dropping ''cus_1'' ''monthly'' 10 =
       Inl (APIConnectionError ''Connection reset'')
   \<and> make_donation dropping monthly_10 nothing_yet =
     (Raised (DonationError connection_error_message),
      \<lparr>stripe_calls = [Customer_create ''tok_valid'', Subscriptions_create ''cus_1'' ''monthly'' 10],
       objects_create_calls = [], donations = []\<rparr>)"
proof -
  have a: "cd_amount onetime_25 = Some 25" and c: "cd_campaign onetime_25 = Some None"
    and t: "cd_stripe_token onetime_25 = Some ''tok_valid''"
    and i: "cd_interval onetime_25 = Some ''onetime''"
    by (simp_all add: onetime_25_def)
  have a': "cd_amount monthly_10 = Some 10" and c': "cd_campaign monthly_10 = Some (Some 3)"
    and t': "cd_stripe_token monthly_10 = Some ''tok_valid''"
    and i': "cd_interval monthly_10 = Some ''monthly''"
    by (simp_all add: monthly_10_def)
  have answers: "customer_create unreachable ''tok_valid'' = Inl (APIConnectionError ''Connection refused'')"
    "customer_create dropping ''tok_valid'' = Inr ''cus_1''"
    "subscriptions_create dropping ''cus_1'' ''monthly'' 10 =
       Inl (APIConnectionError ''Connection reset'')"
    by (simp_all add: unreachable_def dropping_def accepting_def)
  have refused: "customer_create unreachable ''tok_valid'' = Inl (APIConnectionError ''Connection refused'') \<or>
         (\<exists>cid. customer_create unreachable ''tok_valid'' = Inr cid \<and>
            (if ''onetime'' = ''onetime''
             then charge_create unreachable (25 * 100) ''usd'' cid (or_None (cd_receipt_email onetime_25))
             else subscriptions_create unreachable cid ''onetime'' 25) = Inl (APIConnectionError ''Connection refused''))"
    by (simp add: unreachable_def accepting_def)
  have dropped: "customer_create dropping ''tok_valid'' = Inl (APIConnectionError ''Connection reset'') \<or>
         (\<exists>cid. customer_create dropping ''tok_valid'' = Inr cid \<and>
            (if ''monthly'' = ''onetime''
             then charge_create dropping (10 * 100) ''usd'' cid (or_None (cd_receipt_email monthly_10))
             else subscriptions_create dropping cid ''monthly'' 10) = Inl (APIConnectionError ''Connection reset''))"
    by (simp add: dropping_def accepting_def)
  have run: "make_donation unreachable onetime_25 nothing_yet =
     (fst (make_donation unreachable onetime_25 nothing_yet),
      \<lparr>stripe_calls = [Customer_create ''tok_valid''],
       objects_create_calls = [], donations = []\<rparr>)"
    by (simp add: run_defs)
  have run': "make_donation dropping monthly_10 nothing_yet =
     (fst (make_donation dropping monthly_10 nothing_yet),
      \<lparr>stripe_calls = [Customer_create ''tok_valid'', Subscriptions_create ''cus_1'' ''monthly'' 10],
       objects_create_calls = [], donations = []\<rparr>)"
    by (simp add: run_defs)
  from processor_unreachable [OF a c t i refused run]
    processor_unreachable [OF a' c' t' i' dropped run'] answers run run'
  show ?thesis
    by simp
qed

text \<open>
  C6. When the processor answers with an authentication error, or with any exception
  other than a card error, an invalid request error or a connection error, on creating
  the customer or on the charge or subscription that follows, \<^verbatim>\<open>make_donation\<close> raises
  that same exception: it is not replaced by a \<^verbatim>\<open>DonationError\<close> with a message for the
  user.
\<close>

theorem unclassified_errors_propagate:
  assumes "cd_amount cd = Some amnt" and "cd_campaign cd = Some cv"
    and "cd_stripe_token cd = Some tok" and "cd_interval cd = Some interval"
    and "customer_create env tok = Inl e \<or>
         (\<exists>cid. customer_create env tok = Inr cid \<and>
            (if interval = ''onetime''
             then charge_create env (amnt * 100) ''usd'' cid (or_None (cd_receipt_email cd))
             else subscriptions_create env cid interval amnt) = Inl e)"
    and "\<forall>m. e \<noteq> CardError m \<and> e \<noteq> InvalidRequestError m \<and> e \<noteq> APIConnectionError m"
    and "make_donation env cd s = (r, s')"
  shows "r = Raised e"
  using assms
  unfolding make_donation_defs except_clauses_def
  by (auto split: option.splits sum.splits if_splits prod.splits py_exception.splits)

theorem unclassified_errors_propagate_witness:
  "customer_create unauthenticated ''tok_valid'' =
     Inl (AuthenticationError ''Invalid API Key provided'')
   \<and> make_donation unauthenticated onetime_25 nothing_yet =
     (Raised (AuthenticationError ''Invalid API Key provided''),
      \<lparr>stripe_calls = [Customer_create ''tok_valid''],
       objects_create_calls = [], donations = []\<rparr>)
   \<and> \<not> is_DonationError (fst (make_donation unauthenticated onetime_25 nothing_yet))
   \<and> customer_create throttling ''tok_valid'' = Inr ''cus_1''
   \<and> subscriptions_create throttling ''cus_1'' ''monthly'' 10 =
       Inl (StripeError ''Too many requests'')
   \<and> make_donation throttling monthly_10 nothing_yet =
     (Raised (StripeError ''Too many requests''),
      \<lparr>stripe_calls = [Customer_create ''tok_valid'', Subscriptions_create ''cus_1'' ''monthly'' 10],
       objects_create_calls = [], donations = []\<rparr>)"
proof -
  have a: "cd_amount onetime_25 = Some 25" and c: "cd_campaign onetime_25 = Some None"
    and t: "cd_stripe_token onetime_25 = Some ''tok_valid''"
    and i: "cd_interval onetime_25 = Some ''onetime''"
    by (simp_all add: onetime_25_def)
  have a': "cd_amount monthly_10 = Some 10" and c': "cd_campaign monthly_10 = Some (Some 3)"
    and t': "cd_stripe_token monthly_10 = Some ''tok_valid''"
    and i': "cd_interval monthly_10 = Some ''monthly''"
    by (simp_all add: monthly_10_def)
  have answers: "customer_create unauthenticated ''tok_valid'' =
       Inl (AuthenticationError ''Invalid API Key provided'')"
    "customer_create throttling ''tok_valid'' = Inr ''cus_1''"
    "subscriptions_create throttling ''cus_1'' ''monthly'' 10 =
       Inl (StripeError ''Too many requests'')"
    by (simp_all add: unauthenticated_def throttling_def accepting_def)
  have denied: "customer_create unauthenticated ''tok_valid'' = Inl (AuthenticationError ''Invalid API Key provided'') \<or>
         (\<exists>cid. customer_create unauthenticated ''tok_valid'' = Inr cid \<and>
            (if ''onetime'' = ''onetime''
             then charge_create unauthenticated (25 * 100) ''usd'' cid (or_None (cd_receipt_email onetime_25))
             else subscriptions_create unauthenticated cid ''onetime'' 25) = Inl (AuthenticationError ''Invalid API Key provided''))"
    by (simp add: unauthenticated_def accepting_def)
  have busy: "customer_create throttling ''tok_valid'' = Inl (StripeError ''Too many requests'') \<or>
         (\<exists>cid. customer_create throttling ''tok_valid'' = Inr cid \<and>
            (if ''monthly'' = ''onetime''
             then charge_create throttling (10 * 100) ''usd'' cid (or_None (cd_receipt_email monthly_10))
             else subscriptions_create throttling cid ''monthly'' 10) = Inl (StripeError ''Too many requests''))"
    by (simp add: throttling_def accepting_def)
  have other: "\<forall>m. AuthenticationError ''Invalid API Key provided'' \<noteq> CardError m
      \<and> AuthenticationError ''Invalid API Key provided'' \<noteq> InvalidRequestError m
      \<and> AuthenticationError ''Invalid API Key provided'' \<noteq> APIConnectionError m"
    by simp
  have other': "\<forall>m. StripeError ''Too many requests'' \<noteq> CardError m
      \<and> StripeError ''Too many requests'' \<noteq> InvalidRequestError m
      \<and> StripeError ''Too many requests'' \<noteq> APIConnectionError m"
    by simp
  have run: "make_donation unauthenticated onetime_25 nothing_yet =
     (fst (make_donation unauthenticated onetime_25 nothing_yet),
      \<lparr>stripe_calls = [Customer_create ''tok_valid''],
       objects_create_calls = [], donations = []\<rparr>)"
    by (simp add: run_defs)
  have run': "make_donation throttling monthly_10 nothing_yet =
     (fst (make_donation throttling monthly_10 nothing_yet),
      \<lparr>stripe_calls = [Customer_create ''tok_valid'', Subscriptions_create ''cus_1'' ''monthly'' 10],
       objects_create_calls = [], donations = []\<rparr>)"
    by (simp add: run_defs)
  from unclassified_errors_propagate [OF a c t i denied other run]
    unclassified_errors_propagate [OF a' c' t' i' busy other' run'] answers run run'
  show ?thesis
    by simp
qed

text \<open>
  C9. Whatever exception \<^verbatim>\<open>make_donation\<close> ends with, the \<^verbatim>\<open>Donation\<close> table is as it
  was. \<^verbatim>\<open>Donation.objects.create\<close> is called only when the processor has created the
  customer and then the charge (interval \<^verbatim>\<open>'onetime'\<close>) or the subscription (any other
  interval), both without an exception, and these two calls were all the function asked
  of the processor.
\<close>

theorem no_donation_on_failure:
  assumes "make_donation env cd s = (r, s')"
  shows "(\<forall>e. r = Raised e \<longrightarrow> donations s' = donations s)
     \<and> (objects_create_calls s' \<noteq> objects_create_calls s \<or> donations s' \<noteq> donations s \<longrightarrow>
          (\<exists>tok interval amnt cid xid.
              cd_stripe_token cd = Some tok \<and> cd_interval cd = Some interval \<and>
              cd_amount cd = Some amnt \<and>
              customer_create env tok = Inr cid \<and>
              (if interval = ''onetime''
               then charge_create env (amnt * 100) ''usd'' cid (or_None (cd_receipt_email cd))
               else subscriptions_create env cid interval amnt) = Inr xid \<and>
              stripe_calls s' = stripe_calls s @
                [Customer_create tok,
                 if interval = ''onetime''
                 then Charge_create (amnt * 100) ''usd'' cid (or_None (cd_receipt_email cd))
                 else Subscriptions_create cid interval amnt]))"
  using assms
  unfolding make_donation_defs
  by (auto split: option.splits sum.splits if_splits prod.splits)

theorem no_donation_on_failure_witness:
  "make_donation declining onetime_25 nothing_yet =
     (Raised (DonationError (card_error_message ''Your card was declined.'')),
      \<lparr>stripe_calls = [Customer_create ''tok_valid'', Charge_create 2500 ''usd'' ''cus_1'' None],
       objects_create_calls = [], donations = []\<rparr>)
   \<and> donations nothing_yet = []
   \<and> make_donation accepting onetime_25 nothing_yet =
     (Returned donation_25,
      \<lparr>stripe_calls = [Customer_create ''tok_valid'', Charge_create 2500 ''usd'' ''cus_1'' None],
       objects_create_calls = [donation_25], donations = [donation_25]\<rparr>)
   \<and> customer_create accepting ''tok_valid'' = Inr ''cus_1''
   \<and> charge_create accepting 2500 ''usd'' ''cus_1'' None = Inr ''ch_1''"
proof -
  have failing: "make_donation declining onetime_25 nothing_yet =
     (Raised (DonationError (card_error_message ''Your card was declined.'')),
      \<lparr>stripe_calls = [Customer_create ''tok_valid'', Charge_create 2500 ''usd'' ''cus_1'' None],
       objects_create_calls = [], donations = []\<rparr>)"
    by (simp add: run_defs)
  have passing: "make_donation accepting onetime_25 nothing_yet =
     (Returned donation_25,
      \<lparr>stripe_calls = [Customer_create ''tok_valid'', Charge_create 2500 ''usd'' ''cus_1'' None],
       objects_create_calls = [donation_25], donations = [donation_25]\<rparr>)"
    by (simp add: run_defs)
  from no_donation_on_failure [OF failing] no_donation_on_failure [OF passing] failing passing
  show ?thesis
    by (simp add: nothing_yet_def accepting_def)
qed

subsection \<open>What the processor is told\<close>

text \<open>
  C7, as the code has it. A receipt email that is missing or the empty string never
  reaches the processor as the empty string: every charge call that a run adds is given
  \<^verbatim>\<open>None\<close> in that case, and the stored string, unchanged and unchecked, in every other
  case.
\<close>

theorem receipt_email_never_empty:
  assumes "make_donation env cd s = (r, s')"
  shows "\<exists>new. stripe_calls s' = stripe_calls s @ new
     \<and> (\<forall>a c k e. Charge_create a c k e \<in> set new \<longrightarrow>
           e \<noteq> Some [] \<and>
           e = (if cd_receipt_email cd = None \<or> cd_receipt_email cd = Some [] then None
                else cd_receipt_email cd))"
  using assms
  unfolding make_donation_defs or_None_def
  by (auto split: option.splits sum.splits if_splits prod.splits)

theorem receipt_email_never_empty_witness:
  "cd_receipt_email onetime_25 = Some []
   \<and> make_donation accepting onetime_25 nothing_yet =
     (Returned donation_25,
      \<lparr>stripe_calls = [Customer_create ''tok_valid'', Charge_create 2500 ''usd'' ''cus_1'' None],
       objects_create_calls = [donation_25], donations = [donation_25]\<rparr>)
   \<and> Charge_create 2500 ''usd'' ''cus_1'' None \<in>
       set [Customer_create ''tok_valid'', Charge_create 2500 ''usd'' ''cus_1'' None]"
proof -
  have run: "make_donation accepting onetime_25 nothing_yet =
     (Returned donation_25,
      \<lparr>stripe_calls = [Customer_create ''tok_valid'', Charge_create 2500 ''usd'' ''cus_1'' None],
       objects_create_calls = [donation_25], donations = [donation_25]\<rparr>)"
    by (simp add: run_defs)
  from receipt_email_never_empty [OF run] run show ?thesis
    by (simp add: onetime_25_def)
qed

text \<open>
  C7, as the specification has it, fails where it says that the charge call receives a
  well-formed address or none: \<^verbatim>\<open>receipt_email\<close> is a plain \<^verbatim>\<open>CharField\<close> (line 154), so
  cleaned data can hold any text, and a text without an \<^verbatim>\<open>@\<close> is handed to the charge call
  as it is.
\<close>

theorem receipt_email_not_checked:
  "make_donation accepting onetime_not_an_email nothing_yet =
     (Returned (donation_25\<lparr>receipt_email := Some ''not an email''\<rparr>),
      \<lparr>stripe_calls = [Customer_create ''tok_valid'',
                       Charge_create 2500 ''usd'' ''cus_1'' (Some ''not an email'')],
       objects_create_calls = [donation_25\<lparr>receipt_email := Some ''not an email''\<rparr>],
       donations = [donation_25\<lparr>receipt_email := Some ''not an email''\<rparr>]\<rparr>)
   \<and> CHR ''@'' \<notin> set ''not an email''"
  by (simp add: run_defs)



subsection \<open>A database that cannot be written\<close>

text \<open>
  C3, as the code has it. When the processor has created the customer and the charge or
  subscription, and \<^verbatim>\<open>Donation.objects.create\<close> raises, \<^verbatim>\<open>make_donation\<close> raises that
  same exception: the failure is not swallowed, and it is not turned into a
  \<^verbatim>\<open>DonationError\<close> either. No donation is returned and no row is written, the calls
  made at the processor stand, and the function does nothing else: the world it leaves
  is the one after the processor calls with the one call of \<^verbatim>\<open>Donation.objects.create\<close>
  added.
\<close>

theorem persistence_failure_propagates:
  assumes "cd_amount cd = Some amnt" and "cd_campaign cd = Some cv"
    and "cd_stripe_token cd = Some tok" and "cd_interval cd = Some interval"
    and "try_body env tok interval amnt (cd_receipt_email cd) s = (Inr (cid, chid, subid), s1)"
    and "objects_create_error env
           \<lparr>amount = amnt, stripe_customer_id = cid, stripe_charge_id = chid,
            stripe_subscription_id = subid, receipt_email = cd_receipt_email cd,
            campaign = cv\<rparr> = Some e"
  shows "make_donation env cd s =
           (Raised e, s1\<lparr>objects_create_calls := objects_create_calls s @
              [\<lparr>amount = amnt, stripe_customer_id = cid, stripe_charge_id = chid,
                stripe_subscription_id = subid, receipt_email = cd_receipt_email cd,
                campaign = cv\<rparr>]\<rparr>)
     \<and> donations s1 = donations s"
  using assms
  unfolding make_donation_defs
  by (auto split: option.splits sum.splits if_splits prod.splits)

theorem persistence_failure_propagates_witness:
  "try_body database_down ''tok_valid'' ''onetime'' 25 (cd_receipt_email onetime_25) nothing_yet =
     (Inr (''cus_1'', ''ch_1'', []),
      \<lparr>stripe_calls = [Customer_create ''tok_valid'', Charge_create 2500 ''usd'' ''cus_1'' None],
       objects_create_calls = [], donations = []\<rparr>)
   \<and> objects_create_error database_down donation_25 = Some (OtherException ''database is down'')
   \<and> make_donation database_down onetime_25 nothing_yet =
     (Raised (OtherException ''database is down''),
      \<lparr>stripe_calls = [Customer_create ''tok_valid'', Charge_create 2500 ''usd'' ''cus_1'' None],
       objects_create_calls = [donation_25], donations = []\<rparr>)"
proof -
  have a: "cd_amount onetime_25 = Some 25" and c: "cd_campaign onetime_25 = Some None"
    and t: "cd_stripe_token onetime_25 = Some ''tok_valid''"
    and i: "cd_interval onetime_25 = Some ''onetime''"
    by (simp_all add: onetime_25_def)
  have charged:
    "try_body database_down ''tok_valid'' ''onetime'' 25 (cd_receipt_email onetime_25) nothing_yet =
       (Inr (''cus_1'', ''ch_1'', []),
        \<lparr>stripe_calls = [Customer_create ''tok_valid'', Charge_create 2500 ''usd'' ''cus_1'' None],
         objects_create_calls = [], donations = []\<rparr>)"
    by (simp add: run_defs)
  have down: "objects_create_error database_down
       \<lparr>amount = 25, stripe_customer_id = ''cus_1'', stripe_charge_id = ''ch_1'',
        stripe_subscription_id = [], receipt_email = cd_receipt_email onetime_25,
        campaign = None\<rparr> = Some (OtherException ''database is down'')"
    by (simp add: database_down_def accepting_def)
  from persistence_failure_propagates [OF a c t i charged down] charged down show ?thesis
    by (simp add: onetime_25_def donation_25_def nothing_yet_def database_down_def accepting_def)
qed

text \<open>
  C3, as the specification has it, fails: with a processor that accepts the charge and a
  database that cannot be written, what the caller gets is the exception of the database,
  not a \<^verbatim>\<open>DonationError\<close> of any kind, and it names neither the amount nor the customer
  nor the charge; the world afterwards holds the two processor calls and the failed call
  of \<^verbatim>\<open>Donation.objects.create\<close> and nothing more, so nothing was logged.
\<close>

theorem persistence_failure_not_classified:
  "make_donation database_down onetime_25 nothing_yet =
     (Raised (OtherException ''database is down''),
      \<lparr>stripe_calls = [Customer_create ''tok_valid'', Charge_create 2500 ''usd'' ''cus_1'' None],
       objects_create_calls = [donation_25], donations = []\<rparr>)
   \<and> \<not> is_DonationError (fst (make_donation database_down onetime_25 nothing_yet))"
  by (simp add: run_defs)

subsection \<open>Validation\<close>

text \<open>
  C8. A submitted amount that is not an integer of at least 1 makes the form invalid,
  with an error under \<^verbatim>\<open>amount\<close>, and a submitted interval that is not one of
  \<^verbatim>\<open>monthly\<close>, \<^verbatim>\<open>quarterly\<close>, \<^verbatim>\<open>yearly\<close>, \<^verbatim>\<open>onetime\<close> makes it invalid, with an error
  under \<^verbatim>\<open>interval\<close>. In both cases \<^verbatim>\<open>make_donation\<close> on the cleaned data stops with a
  \<^verbatim>\<open>KeyError\<close> at lines 180-183 and leaves the world as it was: the processor is not
  called. An amount of 0 is such an amount.
\<close>

theorem validation_rejects:
  assumes "full_clean to_int raw_amount raw_interval others = (cd, errors)"
  shows "(\<not> (\<exists>n. to_int raw_amount = Some n \<and> 1 \<le> n) \<longrightarrow>
            \<not> is_valid errors \<and> ''amount'' \<in> fst ` set errors \<and>
            make_donation env cd s = (Raised (KeyError ''amount''), s))
     \<and> (raw_interval \<notin> {''monthly'', ''quarterly'', ''yearly'', ''onetime''} \<longrightarrow>
            \<not> is_valid errors \<and> ''interval'' \<in> fst ` set errors \<and>
            (\<exists>k. make_donation env cd s = (Raised (KeyError k), s)))"
proof -
  have cd: "cd = others\<lparr>cd_amount := (case clean_amount to_int raw_amount of
                                         Inl _ \<Rightarrow> None | Inr n \<Rightarrow> Some n),
                        cd_interval := (case clean_interval raw_interval of
                                         Inl _ \<Rightarrow> None | Inr v \<Rightarrow> Some v)\<rparr>"
    and errors: "errors =
      (case clean_amount to_int raw_amount of Inl e \<Rightarrow> [(''amount'', e)] | Inr _ \<Rightarrow> []) @
      (case clean_interval raw_interval of Inl e \<Rightarrow> [(''interval'', e)] | Inr _ \<Rightarrow> [])"
    using assms by (simp_all add: full_clean_def)
  have amount_part: "\<not> is_valid errors \<and> ''amount'' \<in> fst ` set errors \<and>
      make_donation env cd s = (Raised (KeyError ''amount''), s)"
    if "\<not> (\<exists>n. to_int raw_amount = Some n \<and> 1 \<le> n)"
  proof -
    from that have "\<exists>e. clean_amount to_int raw_amount = Inl e"
      by (cases "to_int raw_amount") (auto simp: clean_amount_def)
    then obtain e where e: "clean_amount to_int raw_amount = Inl e"
      by blast
    then have "cd_amount cd = None"
      by (simp add: cd)
    then show ?thesis
      using e by (simp add: errors is_valid_def make_donation_missing_amount)
  qed
  have interval_part: "\<not> is_valid errors \<and> ''interval'' \<in> fst ` set errors \<and>
      (\<exists>k. make_donation env cd s = (Raised (KeyError k), s))"
    if "raw_interval \<notin> {''monthly'', ''quarterly'', ''yearly'', ''onetime''}"
  proof -
    from that have "\<exists>e. clean_interval raw_interval = Inl e"
      by (auto simp: clean_interval_def INTERVAL_CHOICES_def)
    then obtain e where e: "clean_interval raw_interval = Inl e"
      by blast
    then have "cd_interval cd = None"
      by (simp add: cd)
    then show ?thesis
      using e by (simp add: errors is_valid_def make_donation_missing_interval)
  qed
  from amount_part interval_part show ?thesis by blast
qed

theorem validation_rejects_witness:
  "full_clean to_int_0_25 ''0'' ''weekly'' onetime_25 =
     (onetime_25\<lparr>cd_amount := None, cd_interval := None\<rparr>,
      [(''amount'', Min_value), (''interval'', Invalid_choice)])
   \<and> \<not> (\<exists>n. to_int_0_25 ''0'' = Some n \<and> 1 \<le> n)
   \<and> ''weekly'' \<notin> {''monthly'', ''quarterly'', ''yearly'', ''onetime''}
   \<and> make_donation accepting (onetime_25\<lparr>cd_amount := None, cd_interval := None\<rparr>) nothing_yet =
       (Raised (KeyError ''amount''), nothing_yet)"
proof -
  have cleaned: "full_clean to_int_0_25 ''0'' ''weekly'' onetime_25 =
     (onetime_25\<lparr>cd_amount := None, cd_interval := None\<rparr>,
      [(''amount'', Min_value), (''interval'', Invalid_choice)])"
    by (simp add: full_clean_def clean_amount_def clean_interval_def INTERVAL_CHOICES_def
        to_int_0_25_def)
  have zero: "\<not> (\<exists>n. to_int_0_25 ''0'' = Some n \<and> 1 \<le> n)"
    by (simp add: to_int_0_25_def)
  have weekly: "''weekly'' \<notin> {''monthly'', ''quarterly'', ''yearly'', ''onetime''}"
    by simp
  from validation_rejects [OF cleaned, of accepting nothing_yet] cleaned zero weekly
  show ?thesis
    by simp
qed

end
